theory Spec2Isabelle
  imports Main "HOL-Library.AList"
begin

section \<open>Python values\<close>

text \<open>
  The values that flow through \<^verbatim>\<open>pypal/service/adaptive_payment.py\<close>. A \<^verbatim>\<open>dict\<close>
  is an association list in insertion order, read with \<open>map_of\<close> and written with
  \<open>AList.update\<close> (an existing key keeps its place, a new key goes to the end, as in
  Python). \<open>PReceiverList\<close> is an instance of the class \<^verbatim>\<open>ReceiverList\<close>, a subclass of
  \<^verbatim>\<open>list\<close>; \<open>PObject\<close> is any other object (the client handle inside \<^verbatim>\<open>locals()\<close>).
\<close>

datatype pyval =
    PNone
  | PBool bool
  | PInt int
  | PStr string
  | PList "pyval list"
  | PTuple "pyval list"
  | PDict "(string \<times> pyval) list"
  | PReceiverList "pyval list"
  | PObject

type_synonym dict = "(string \<times> pyval) list"

text \<open>Python truthiness, the test behind \<^verbatim>\<open>not x\<close> and \<^verbatim>\<open>if x\<close>.\<close>

fun truthy :: "pyval \<Rightarrow> bool" where
  "truthy PNone = False"
| "truthy (PBool b) = b"
| "truthy (PInt i) = (i \<noteq> 0)"
| "truthy (PStr s) = (s \<noteq> [])"
| "truthy (PList xs) = (xs \<noteq> [])"
| "truthy (PTuple xs) = (xs \<noteq> [])"
| "truthy (PDict d) = (d \<noteq> [])"
| "truthy (PReceiverList xs) = (xs \<noteq> [])"
| "truthy PObject = True"

text \<open>\<^verbatim>\<open>d.get(k, default)\<close>; \<^verbatim>\<open>d.get(k)\<close> is \<open>dict_get d k PNone\<close>.\<close>

definition dict_get :: "dict \<Rightarrow> string \<Rightarrow> pyval \<Rightarrow> pyval" where
  "dict_get d k dflt = (case map_of d k of None \<Rightarrow> dflt | Some v \<Rightarrow> v)"

text \<open>\<^verbatim>\<open>d.update(other)\<close>: the items of \<open>other\<close> are stored one after the other.\<close>

fun dict_update :: "dict \<Rightarrow> dict \<Rightarrow> dict" where
  "dict_update d [] = d"
| "dict_update d ((k, v) # kvs) = dict_update (AList.update k v d) kvs"

text \<open>
  The exceptions of the module. The three \<^verbatim>\<open>ValueError\<close>s of \<^verbatim>\<open>pay\<close> differ in their
  message only; each constructor stands for one message and carries the value the
  message prints. \<open>MissingRequiredField\<close> is what \<^verbatim>\<open>check_required\<close> raises,
  \<open>ClientRaised\<close> whatever the injected client raises.
\<close>

datatype pyerr =
    MissingRequiredField string
  | ValueError_currency_code "string option"
  | ValueError_payment_action "string option"
  | ValueError_fees_payer "string option"
  | TypeError string
  | AttributeError string
  | ClientRaised string

section \<open>ReceiverList\<close>

text \<open>
  \<^verbatim>\<open>
  class ReceiverList(list):
      def __init__(self, iterable):
          if iterable:
              self.extend(iterable)
      def append(self, obj):
          email = obj.get('email', None)
          amount = obj.get('amount', None)
          if not email and not amount:
              return False
          sanitized = {'email': obj.get('email'),
                       'amount': obj.get('amount'),
                       'primary': obj.get('primary', 'false')}
          super(type(self), self).append(sanitized)
      def extend(self, iterable):
          for obj in iterable:
              self.append(obj)
  \<close>
  The list \<^verbatim>\<open>self\<close> is passed in and returned updated. \<^verbatim>\<open>append\<close> returns its Python
  return value (\<^verbatim>\<open>False\<close> for a dropped record, \<^verbatim>\<open>None\<close> otherwise) beside the list.
  Only a \<^verbatim>\<open>dict\<close> has a \<^verbatim>\<open>get\<close> method here; on any other object the first line of
  \<^verbatim>\<open>append\<close> raises \<^verbatim>\<open>AttributeError\<close>. The iterable of \<^verbatim>\<open>extend\<close> and \<^verbatim>\<open>__init__\<close> is
  the sequence of its items, a sequence of its own (not \<^verbatim>\<open>self\<close>).
\<close>

definition sanitized :: "dict \<Rightarrow> dict" where
  "sanitized obj =
     [(''email'', dict_get obj ''email'' PNone),
      (''amount'', dict_get obj ''amount'' PNone),
      (''primary'', dict_get obj ''primary'' (PStr ''false''))]"

fun ReceiverList_append :: "pyval list \<Rightarrow> pyval \<Rightarrow> pyerr + (pyval \<times> pyval list)" where
  "ReceiverList_append self (PDict obj) =
     (let email = dict_get obj ''email'' PNone;
          amount = dict_get obj ''amount'' PNone
      in if \<not> truthy email \<and> \<not> truthy amount then Inr (PBool False, self)
         else Inr (PNone, self @ [PDict (sanitized obj)]))"
| "ReceiverList_append self _ = Inl (AttributeError ''get'')"

fun ReceiverList_extend :: "pyval list \<Rightarrow> pyval list \<Rightarrow> pyerr + pyval list" where
  "ReceiverList_extend self [] = Inr self"
| "ReceiverList_extend self (obj # iterable) =
     (case ReceiverList_append self obj of
        Inl e \<Rightarrow> Inl e
      | Inr (_, self') \<Rightarrow> ReceiverList_extend self' iterable)"

definition ReceiverList_init :: "pyval list \<Rightarrow> pyerr + pyval list" where
  "ReceiverList_init iterable =
     (if iterable \<noteq> [] then ReceiverList_extend [] iterable else Inr [])"

text \<open>
  A record survives \<^verbatim>\<open>append\<close> when the guard \<^verbatim>\<open>not email and not amount\<close> is false.
\<close>

definition survives :: "dict \<Rightarrow> bool" where
  "survives obj \<longleftrightarrow>
     truthy (dict_get obj ''email'' PNone) \<or> truthy (dict_get obj ''amount'' PNone)"

section \<open>The injected collaborators and the state\<close>

text \<open>
  The response of the provider: \<^verbatim>\<open>response.success\<close> and the key lookup
  \<^verbatim>\<open>response.get(name, None)\<close> over its fields, which are strings.
\<close>

record response =
  success :: bool
  resp_fields :: "(string \<times> string) list"

text \<open>One invocation of \<^verbatim>\<open>client.call(service, method, endpoint=..., **params)\<close>.\<close>

record request =
  service :: string
  api_method :: string
  endpoint :: string
  params :: dict

text \<open>
  \<^verbatim>\<open>pypal.Client\<close> is not part of this module; the three things the module uses are
  taken as they come: the flag \<^verbatim>\<open>client.config.in_sandbox\<close>, the method
  \<^verbatim>\<open>client.get_paypal_url(path)\<close> and the method \<^verbatim>\<open>client.call\<close>, which answers a
  request (knowing the requests sent before it) with a response or raises.
\<close>

record client =
  in_sandbox :: bool
  get_paypal_url :: "string \<Rightarrow> string"
  client_call :: "request list \<Rightarrow> request \<Rightarrow> pyerr + response"

text \<open>
  The dictionaries that \<^verbatim>\<open>extra\<close> can denote live in a store. Each \<^verbatim>\<open>extra={}\<close> in a
  \<^verbatim>\<open>def\<close> line creates one dictionary when the module is loaded, and every call that
  omits the argument gets that same object; the caller's own dictionaries are the
  other references.
\<close>

datatype ref = PayDefault | SetPaymentOptionsDefault | GetPaymentUrlDefault | Caller nat

record world =
  dispatched :: "request list"
  store :: "ref \<Rightarrow> dict"

definition loaded :: world where
  "loaded = \<lparr>dispatched = [], store = (\<lambda>_. [])\<rparr>"

section \<open>Parameter utilities\<close>

text \<open>
  Modelled from the spec: \<^verbatim>\<open>pypal.util\<close> (\<^verbatim>\<open>check_required\<close>, \<^verbatim>\<open>set_nonempty_param\<close>) is
  imported by the module and is not among the sources. The spec calls a value non-empty
  when it is "non-null, non-empty-string, non-empty-collection".
\<close>

fun is_empty :: "pyval \<Rightarrow> bool" where
  "is_empty PNone = True"
| "is_empty (PStr s) = (s = [])"
| "is_empty (PList xs) = (xs = [])"
| "is_empty (PTuple xs) = (xs = [])"
| "is_empty (PDict d) = (d = [])"
| "is_empty (PReceiverList xs) = (xs = [])"
| "is_empty (PBool b) = False"
| "is_empty (PInt i) = False"
| "is_empty PObject = False"

text \<open>
  Modelled from the spec: \<^verbatim>\<open>check_required\<close> of \<^verbatim>\<open>pypal.util\<close>, not among the sources:
  "for each name in requiredNames, fails with a ValidationError (kind:
  MissingRequiredField, carrying the field name) if values[name] is empty/absent",
  reporting "the first missing one encountered in caller-specified order".
\<close>

fun check_required :: "dict \<Rightarrow> string list \<Rightarrow> pyerr + unit" where
  "check_required values [] = Inr ()"
| "check_required values (name # names) =
     (case map_of values name of
        None \<Rightarrow> Inl (MissingRequiredField name)
      | Some v \<Rightarrow> if is_empty v then Inl (MissingRequiredField name)
                  else check_required values names)"

text \<open>
  Modelled from the spec: \<^verbatim>\<open>set_nonempty_param\<close> of \<^verbatim>\<open>pypal.util\<close>, not among the
  sources: "side-effects on target by inserting key: value only if value is non-empty
  ...; otherwise no-op". The target is returned updated.
\<close>

definition set_nonempty_param :: "dict \<Rightarrow> string \<Rightarrow> pyval \<Rightarrow> dict" where
  "set_nonempty_param target key v = (if is_empty v then target else AList.update key v target)"

section \<open>The module\<close>

definition PRODUCTION_ENDPOINT :: string where
  "PRODUCTION_ENDPOINT = ''https://svcs.paypal.com''"

definition SANDBOX_ENDPOINT :: string where
  "SANDBOX_ENDPOINT = ''https://svcs.sandbox.paypal.com''"

definition SUPPORTED_PAY_ACTIONS :: "string list" where
  "SUPPORTED_PAY_ACTIONS = [''PAY'', ''CREATE'', ''PAY_PRIMARY'']"

definition SUPPORTED_FEE_PAYERS :: "string list" where
  "SUPPORTED_FEE_PAYERS = [''SENDER'', ''PRIMARYRECEIVER'', ''EACHRECEIVER'', ''SECONDARYONLY'']"

text \<open>
  An argument that is \<^verbatim>\<open>None\<close> or a \<^verbatim>\<open>str\<close> (action type, currency code, the URLs, the
  fees payer), as a Python value, and \<^verbatim>\<open>x in s\<close> for such an argument and a set of
  strings.
\<close>

fun pystr :: "string option \<Rightarrow> pyval" where
  "pystr None = PNone"
| "pystr (Some s) = PStr s"

fun str_in :: "string option \<Rightarrow> string list \<Rightarrow> bool" where
  "str_in None xs = False"
| "str_in (Some s) xs = (s \<in> set xs)"

text \<open>
  \<^verbatim>\<open>
  def call(client, method, params):
      endpoint = (PRODUCTION_ENDPOINT, SANDBOX_ENDPOINT)
      endpoint = endpoint[int(client.config.in_sandbox)]
      return client.call('AdaptivePayments', method,
                         endpoint=endpoint, **params)
  \<close>
  The call expression names the keyword \<^verbatim>\<open>endpoint\<close> and unpacks \<^verbatim>\<open>params\<close> beside it:
  when \<^verbatim>\<open>params\<close> has a key \<^verbatim>\<open>endpoint\<close> too, Python raises \<^verbatim>\<open>TypeError\<close> (multiple values
  for the keyword argument) and \<^verbatim>\<open>client.call\<close> is not entered.
\<close>

definition call :: "client \<Rightarrow> string \<Rightarrow> dict \<Rightarrow> world \<Rightarrow> (pyerr + response) \<times> world" where
  "call cl meth ps w =
     (let endpoints = [PRODUCTION_ENDPOINT, SANDBOX_ENDPOINT];
          ep = endpoints ! (if in_sandbox cl then 1 else 0)
      in if ''endpoint'' \<in> set (map fst ps)
         then (Inl (TypeError ''got multiple values for keyword argument endpoint''), w)
         else
           (let req = \<lparr>service = ''AdaptivePayments'', api_method = meth,
                       endpoint = ep, params = ps\<rparr>
            in (client_call cl (dispatched w) req,
                w\<lparr>dispatched := dispatched w @ [req]\<rparr>)))"

text \<open>
  \<^verbatim>\<open>template % pay_key\<close> for a template with one \<^verbatim>\<open>%s\<close> and a string argument.
\<close>

fun format_s :: "string \<Rightarrow> string \<Rightarrow> string" where
  "format_s (c # d # cs) a =
     (if c = CHR ''%'' \<and> d = CHR ''s'' then a @ cs else c # format_s (d # cs) a)"
| "format_s cs a = cs"

text \<open>
  \<^verbatim>\<open>
  def generate_pay_url(client, pay_key, embedded=False):
      paths = ('/cgi-bin/webscr?cmd=_ap-payment&paykey=%s',
               '/webapps/adaptivepayment/flow/pay?paykey=%s')
      return client.get_paypal_url(paths[embedded] % pay_key)
  \<close>
\<close>

definition generate_pay_url :: "client \<Rightarrow> string \<Rightarrow> bool \<Rightarrow> string" where
  "generate_pay_url cl pay_key embedded =
     (let paths = [''/cgi-bin/webscr?cmd=_ap-payment&paykey=%s'',
                   ''/webapps/adaptivepayment/flow/pay?paykey=%s'']
      in get_paypal_url cl (format_s (paths ! (if embedded then 1 else 0)) pay_key))"

text \<open>
  Lines 168 to 171 of \<^verbatim>\<open>pay\<close>:
  \<^verbatim>\<open>
  if not isinstance(receivers, ReceiverList):
      if not isinstance(receivers, (list, tuple)):
          receivers = [receivers]
      receivers = ReceiverList(receivers)
  \<close>
\<close>

fun pay_receivers :: "pyval \<Rightarrow> pyerr + pyval list" where
  "pay_receivers (PReceiverList rl) = Inr rl"
| "pay_receivers (PList xs) = ReceiverList_init xs"
| "pay_receivers (PTuple xs) = ReceiverList_init xs"
| "pay_receivers v = ReceiverList_init [v]"

text \<open>
  \<^verbatim>\<open>pay(client, action_type, currency_code, cancel_url, return_url, ipn_callback_url,
  receivers=None, fees_payer=None, extra={})\<close>. The first argument of the model is
  \<^verbatim>\<open>currency.is_valid_code\<close>, which is imported and not among the sources. \<open>extra\<close> is
  \<open>None\<close> when the caller omits the argument (the default object is used) and the
  reference of the caller's dictionary otherwise. The dictionary is updated in place and
  then unpacked into the call: the store holds the updated dictionary from then on.
\<close>

definition pay ::
  "(string option \<Rightarrow> bool) \<Rightarrow> client \<Rightarrow> string option \<Rightarrow> string option \<Rightarrow> string option \<Rightarrow>
   string option \<Rightarrow> string option \<Rightarrow> pyval \<Rightarrow> string option \<Rightarrow> ref option \<Rightarrow> world \<Rightarrow>
   (pyerr + response) \<times> world" where
  "pay is_valid_code cl action_type currency_code cancel_url return_url ipn_callback_url
       receivers fees_payer extra w =
     (let r = (case extra of None \<Rightarrow> PayDefault | Some a \<Rightarrow> a);
          locals = [(''client'', PObject),
                    (''action_type'', pystr action_type),
                    (''currency_code'', pystr currency_code),
                    (''cancel_url'', pystr cancel_url),
                    (''return_url'', pystr return_url),
                    (''ipn_callback_url'', pystr ipn_callback_url),
                    (''receivers'', receivers),
                    (''fees_payer'', pystr fees_payer),
                    (''extra'', PDict (store w r))]
      in case check_required locals [''cancel_url'', ''return_url'', ''currency_code'',
                                     ''action_type'', ''receivers'', ''ipn_callback_url''] of
           Inl e \<Rightarrow> (Inl e, w)
         | Inr _ \<Rightarrow>
             if \<not> is_valid_code currency_code
             then (Inl (ValueError_currency_code currency_code), w)
             else if \<not> str_in action_type SUPPORTED_PAY_ACTIONS
             then (Inl (ValueError_payment_action action_type), w)
             else if truthy (pystr fees_payer) \<and> \<not> str_in fees_payer SUPPORTED_FEE_PAYERS
             then (Inl (ValueError_fees_payer fees_payer), w)
             else
               (case pay_receivers receivers of
                  Inl e \<Rightarrow> (Inl e, w)
                | Inr rl \<Rightarrow>
                    (let d1 = dict_update (store w r)
                                [(''actionType'', pystr action_type),
                                 (''receiverList'', PDict [(''receiver'', PReceiverList rl)]),
                                 (''currencyCode'', pystr currency_code),
                                 (''cancelUrl'', pystr cancel_url),
                                 (''returnUrl'', pystr return_url)];
                         d2 = set_nonempty_param d1 ''ipnNotificationUrl'' (pystr ipn_callback_url);
                         d3 = set_nonempty_param d2 ''feesPayer'' (pystr fees_payer)
                     in call cl ''Pay'' d3 (w\<lparr>store := (store w)(r := d3)\<rparr>))))"

text \<open>
  \<^verbatim>\<open>f(**kwargs)\<close>: every keyword must be the name of a parameter of \<^verbatim>\<open>f\<close>, or Python
  raises \<^verbatim>\<open>TypeError\<close> (unexpected keyword argument) before the body of \<^verbatim>\<open>f\<close> runs.
\<close>

definition bind_keywords :: "string \<Rightarrow> string list \<Rightarrow> string list \<Rightarrow> pyerr + unit" where
  "bind_keywords f parameters keywords =
     (case filter (\<lambda>k. k \<notin> set parameters) keywords of
        [] \<Rightarrow> Inr ()
      | k # _ \<Rightarrow> Inl (TypeError (f @ ''() got an unexpected keyword argument '' @ k)))"

definition pay_parameters :: "string list" where
  "pay_parameters = [''client'', ''action_type'', ''currency_code'', ''cancel_url'',
     ''return_url'', ''ipn_callback_url'', ''receivers'', ''fees_payer'', ''extra'']"

text \<open>The keys of \<^verbatim>\<open>locals()\<close> on the first line of \<^verbatim>\<open>get_payment_url\<close>: its parameters.\<close>

definition get_payment_url_locals :: "string list" where
  "get_payment_url_locals = [''client'', ''action_type'', ''currency_code'', ''cancel_url'',
     ''return_url'', ''ipn_callback_url'', ''receivers'', ''fees_payer'', ''extra'',
     ''embedded'']"

text \<open>
  \<^verbatim>\<open>
  def get_payment_url(client, action_type, currency_code, cancel_url, return_url,
                      ipn_callback_url=None, receivers=None, fees_payer=None,
                      extra={}, embedded=False):
      response = pay(**locals())
      if not response.success:
          return None
      pay_key = response.get('payKey', None)
      if not pay_key:
          return None
      return generate_pay_url(client, pay_key, embedded=embedded)
  \<close>
  The result is \<open>Inr None\<close> for \<^verbatim>\<open>return None\<close> and \<open>Inr (Some url)\<close> for a URL.
\<close>

definition get_payment_url ::
  "(string option \<Rightarrow> bool) \<Rightarrow> client \<Rightarrow> string option \<Rightarrow> string option \<Rightarrow> string option \<Rightarrow>
   string option \<Rightarrow> string option \<Rightarrow> pyval \<Rightarrow> string option \<Rightarrow> ref option \<Rightarrow> bool \<Rightarrow> world \<Rightarrow>
   (pyerr + string option) \<times> world" where
  "get_payment_url is_valid_code cl action_type currency_code cancel_url return_url
       ipn_callback_url receivers fees_payer extra embedded w =
     (let r = (case extra of None \<Rightarrow> GetPaymentUrlDefault | Some a \<Rightarrow> a)
      in case bind_keywords ''pay'' pay_parameters get_payment_url_locals of
           Inl e \<Rightarrow> (Inl e, w)
         | Inr _ \<Rightarrow>
             (case pay is_valid_code cl action_type currency_code cancel_url return_url
                       ipn_callback_url receivers fees_payer (Some r) w of
                (Inl e, w') \<Rightarrow> (Inl e, w')
              | (Inr resp, w') \<Rightarrow>
                  if \<not> success resp then (Inr None, w')
                  else
                    (case map_of (resp_fields resp) ''payKey'' of
                       None \<Rightarrow> (Inr None, w')
                     | Some pay_key \<Rightarrow>
                         if pay_key = [] then (Inr None, w')
                         else (Inr (Some (generate_pay_url cl pay_key embedded)), w'))))"

text \<open>
  \<^verbatim>\<open>
  def get_payment_options(client, pay_key):
      return call(client, 'GetPaymentOptions', {'payKey': pay_key})
  def execute(client, pay_key):
      return call(client, 'ExecutePayment', {'payKey': pay_key})
  def get_shipping_addresses(client, key):
      return call(client, 'GetShippingAddresses', {'key': key})
  \<close>
\<close>

definition get_payment_options :: "client \<Rightarrow> pyval \<Rightarrow> world \<Rightarrow> (pyerr + response) \<times> world" where
  "get_payment_options cl pay_key w = call cl ''GetPaymentOptions'' [(''payKey'', pay_key)] w"

definition execute :: "client \<Rightarrow> pyval \<Rightarrow> world \<Rightarrow> (pyerr + response) \<times> world" where
  "execute cl pay_key w = call cl ''ExecutePayment'' [(''payKey'', pay_key)] w"

definition get_shipping_addresses :: "client \<Rightarrow> pyval \<Rightarrow> world \<Rightarrow> (pyerr + response) \<times> world" where
  "get_shipping_addresses cl key w = call cl ''GetShippingAddresses'' [(''key'', key)] w"

text \<open>
  \<^verbatim>\<open>
  def set_payment_options(client, pay_key, receiver_options, display_options=None,
                          sender_options=None, shipping_address_id=None,
                          initiating_entity=None, extra={}):
      extra['payKey'] = pay_key
      set_nonempty_param(extra, 'initiatingEntity', initiating_entity)
      set_nonempty_param(extra, 'displayOptions', display_options)
      set_nonempty_param(extra, 'shippingAddressId', shipping_address_id)
      set_nonempty_param(extra, 'senderOptions', sender_options)
      set_nonempty_param(extra, 'receiverOptions', receiver_options)
      return call(client, 'SetPaymentOptions', extra)
  \<close>
\<close>

definition set_payment_options ::
  "client \<Rightarrow> pyval \<Rightarrow> pyval \<Rightarrow> pyval \<Rightarrow> pyval \<Rightarrow> pyval \<Rightarrow> pyval \<Rightarrow> ref option \<Rightarrow> world \<Rightarrow>
   (pyerr + response) \<times> world" where
  "set_payment_options cl pay_key receiver_options display_options sender_options
       shipping_address_id initiating_entity extra w =
     (let r = (case extra of None \<Rightarrow> SetPaymentOptionsDefault | Some a \<Rightarrow> a);
          d0 = AList.update ''payKey'' pay_key (store w r);
          d1 = set_nonempty_param d0 ''initiatingEntity'' initiating_entity;
          d2 = set_nonempty_param d1 ''displayOptions'' display_options;
          d3 = set_nonempty_param d2 ''shippingAddressId'' shipping_address_id;
          d4 = set_nonempty_param d3 ''senderOptions'' sender_options;
          d5 = set_nonempty_param d4 ''receiverOptions'' receiver_options
      in call cl ''SetPaymentOptions'' d5 (w\<lparr>store := (store w)(r := d5)\<rparr>))"

section \<open>What a ReceiverList can hold\<close>

text \<open>
  The class overrides \<^verbatim>\<open>append\<close> and \<^verbatim>\<open>extend\<close> only. Every other method of a
  ReceiverList is the one of \<^verbatim>\<open>list\<close>: \<^verbatim>\<open>self.insert(i, obj)\<close> stores the object as it is
  before position \<^verbatim>\<open>i\<close> (a negative index counts from the end, an index out of range is
  clamped), without passing through \<^verbatim>\<open>append\<close>.
\<close>

definition ReceiverList_insert :: "pyval list \<Rightarrow> int \<Rightarrow> pyval \<Rightarrow> pyval list" where
  "ReceiverList_insert self i obj =
     (let n = int (length self);
          j = (if i < 0 then max 0 (n + i) else min i n)
      in take (nat j) self @ obj # drop (nat j) self)"

text \<open>An entry is populated when it is a dictionary whose email or amount is truthy.\<close>

fun populated :: "pyval \<Rightarrow> bool" where
  "populated (PDict d) = survives d"
| "populated _ = False"

section \<open>Example inputs\<close>

text \<open>
  A sandbox client whose provider accepts every request and answers with a pay key, a
  currency table that knows USD only, and two receiver arguments.
\<close>

definition sandbox_client :: client where
  "sandbox_client =
     \<lparr>in_sandbox = True,
      get_paypal_url = (\<lambda>path. ''https://www.sandbox.paypal.com'' @ path),
      client_call = (\<lambda>sent req. Inr \<lparr>success = True, resp_fields = [(''payKey'', ''AP-1'')]\<rparr>)\<rparr>"

definition usd_only :: "string option \<Rightarrow> bool" where
  "usd_only code \<longleftrightarrow> code = Some ''USD''"

definition one_receiver :: pyval where
  "one_receiver = PDict [(''email'', PStr ''a@b.c''), (''amount'', PStr ''10.00'')]"

definition email_only :: dict where
  "email_only = [(''email'', PStr ''a@b.c''), (''note'', PStr ''x'')]"

section \<open>Facts about ReceiverList\<close>

lemma append_dict:
  "ReceiverList_append self (PDict obj) =
     (if survives obj then Inr (PNone, self @ [PDict (sanitized obj)]) else Inr (PBool False, self))"
  by (simp add: survives_def Let_def)

lemma extend_dicts:
  "ReceiverList_extend self (map PDict objs) =
     Inr (self @ map (PDict \<circ> sanitized) (filter survives objs))"
proof (induction objs arbitrary: self)
  case Nil
  show ?case by simp
next
  case (Cons obj objs)
  show ?case
  proof (cases "survives obj")
    case True
    then show ?thesis using Cons.IH [of "self @ [PDict (sanitized obj)]"]
      by (simp add: append_dict del: ReceiverList_append.simps)
  next
    case False
    then show ?thesis using Cons.IH [of self] by (simp add: append_dict del: ReceiverList_append.simps)
  qed
qed

lemma append_populated:
  "ReceiverList_append self obj = Inr (ret, rl) \<Longrightarrow> list_all populated self \<Longrightarrow> list_all populated rl"
proof (cases obj)
  case (PDict d)
  assume a: "ReceiverList_append self obj = Inr (ret, rl)" and p: "list_all populated self"
  have s: "survives d \<Longrightarrow> survives (sanitized d)"
    by (simp add: survives_def sanitized_def dict_get_def)
  from a p PDict s show ?thesis
    by (cases "survives d") (auto simp: append_dict simp del: ReceiverList_append.simps)
qed simp_all

lemma extend_populated:
  "ReceiverList_extend self it = Inr rl \<Longrightarrow> list_all populated self \<Longrightarrow> list_all populated rl"
proof (induction it arbitrary: self)
  case Nil
  then show ?case by simp
next
  case (Cons obj it)
  then show ?case
    by (auto split: sum.splits dest: append_populated)
qed

lemma init_populated: "ReceiverList_init it = Inr rl \<Longrightarrow> list_all populated rl"
  using extend_populated [of "[]" it rl] by (auto simp: ReceiverList_init_def split: if_splits)

lemma foldl_append_Inl:
  "foldl (\<lambda>acc x. case acc of Inl e \<Rightarrow> Inl e
                   | Inr s \<Rightarrow> map_sum id snd (ReceiverList_append s x)) (Inl e) xs = Inl e"
  by (induction xs) simp_all

lemma extend_foldl:
  "ReceiverList_extend self xs =
     foldl (\<lambda>acc x. case acc of Inl e \<Rightarrow> Inl e
                   | Inr s \<Rightarrow> map_sum id snd (ReceiverList_append s x)) (Inr self) xs"
proof (induction xs arbitrary: self)
  case Nil
  show ?case by simp
next
  case (Cons x xs)
  show ?case
  proof (cases "ReceiverList_append self x")
    case (Inl e)
    then show ?thesis by (simp add: foldl_append_Inl)
  next
    case (Inr p)
    then show ?thesis using Cons.IH [of "snd p"] by (cases p) simp
  qed
qed

section \<open>Facts about the dispatcher and pay\<close>

lemma call_dispatch:
  "''endpoint'' \<notin> fst ` set ps \<Longrightarrow>
   call cl meth ps w =
     (client_call cl (dispatched w)
        \<lparr>service = ''AdaptivePayments'', api_method = meth,
         endpoint = (if in_sandbox cl then ''https://svcs.sandbox.paypal.com'' else ''https://svcs.paypal.com''),
         params = ps\<rparr>,
      w\<lparr>dispatched := dispatched w @
        [\<lparr>service = ''AdaptivePayments'', api_method = meth,
          endpoint = (if in_sandbox cl then ''https://svcs.sandbox.paypal.com'' else ''https://svcs.paypal.com''),
          params = ps\<rparr>]\<rparr>)"
  by (simp add: call_def Let_def PRODUCTION_ENDPOINT_def SANDBOX_ENDPOINT_def)

lemma call_collision:
  "''endpoint'' \<in> fst ` set ps \<Longrightarrow>
   call cl meth ps w = (Inl (TypeError ''got multiple values for keyword argument endpoint''), w)"
  by (simp add: call_def Let_def)

lemma payload_lookup:
  "map_of (set_nonempty_param (set_nonempty_param
            (dict_update base [(''actionType'', a), (''receiverList'', r), (''currencyCode'', c),
                               (''cancelUrl'', cu), (''returnUrl'', ru)])
            ''ipnNotificationUrl'' i) ''feesPayer'' f) k =
     (if k = ''feesPayer'' \<and> \<not> is_empty f then Some f
      else if k = ''ipnNotificationUrl'' \<and> \<not> is_empty i then Some i
      else if k = ''returnUrl'' then Some ru
      else if k = ''cancelUrl'' then Some cu
      else if k = ''currencyCode'' then Some c
      else if k = ''receiverList'' then Some r
      else if k = ''actionType'' then Some a
      else map_of base k)"
  by (simp add: set_nonempty_param_def update_conv')

lemma check_required_pay:
  "check_required
     [(''client'', PObject), (''action_type'', a), (''currency_code'', c), (''cancel_url'', cu),
      (''return_url'', ru), (''ipn_callback_url'', i), (''receivers'', rcv), (''fees_payer'', f),
      (''extra'', x)]
     [''cancel_url'', ''return_url'', ''currency_code'', ''action_type'', ''receivers'',
      ''ipn_callback_url''] =
   (case find (\<lambda>(n, v). is_empty v)
           [(''cancel_url'', cu), (''return_url'', ru), (''currency_code'', c),
            (''action_type'', a), (''receivers'', rcv), (''ipn_callback_url'', i)] of
      None \<Rightarrow> Inr ()
    | Some (n, v) \<Rightarrow> Inl (MissingRequiredField n))"
  by simp

lemma pay_Inr:
  assumes "pay v cl at cc cu ru ipn rcv fp extra w = (res, w')"
    and "dispatched w' \<noteq> dispatched w \<or> (\<exists>resp. res = Inr resp)"
  shows "\<exists>rl. pay_receivers rcv = Inr rl \<and> \<not> is_empty (pystr ipn) \<and>
           (res, w') = call cl ''Pay''
             (set_nonempty_param (set_nonempty_param
                (dict_update (store w (case extra of None \<Rightarrow> PayDefault | Some a \<Rightarrow> a))
                   [(''actionType'', pystr at),
                    (''receiverList'', PDict [(''receiver'', PReceiverList rl)]),
                    (''currencyCode'', pystr cc), (''cancelUrl'', pystr cu),
                    (''returnUrl'', pystr ru)])
                ''ipnNotificationUrl'' (pystr ipn)) ''feesPayer'' (pystr fp))
             (w\<lparr>store := (store w)((case extra of None \<Rightarrow> PayDefault | Some a \<Rightarrow> a) :=
                set_nonempty_param (set_nonempty_param
                (dict_update (store w (case extra of None \<Rightarrow> PayDefault | Some a \<Rightarrow> a))
                   [(''actionType'', pystr at),
                    (''receiverList'', PDict [(''receiver'', PReceiverList rl)]),
                    (''currencyCode'', pystr cc), (''cancelUrl'', pystr cu),
                    (''returnUrl'', pystr ru)])
                ''ipnNotificationUrl'' (pystr ipn)) ''feesPayer'' (pystr fp))\<rparr>)"
proof -
  have ne: "\<not> is_empty (pystr ipn)" if "check_required
     [(''client'', PObject), (''action_type'', pystr at), (''currency_code'', pystr cc), (''cancel_url'', pystr cu),
      (''return_url'', pystr ru), (''ipn_callback_url'', pystr ipn), (''receivers'', rcv), (''fees_payer'', pystr fp),
      (''extra'', x)]
     [''cancel_url'', ''return_url'', ''currency_code'', ''action_type'', ''receivers'',
      ''ipn_callback_url''] = Inr u" for x u
    using that unfolding check_required_pay by (auto split: if_splits)
  show ?thesis
    using assms ne unfolding pay_def Let_def
    by (auto split: sum.splits if_splits simp del: check_required.simps dict_update.simps)
qed

lemma call_new:
  assumes "call cl meth ps w = (res, w')"
  shows "(''endpoint'' \<in> fst ` set ps \<and> w' = w \<and> (\<exists>e. res = Inl e)) \<or>
         (''endpoint'' \<notin> fst ` set ps \<and> store w' = store w \<and>
          dispatched w' = dispatched w @
            [\<lparr>service = ''AdaptivePayments'', api_method = meth,
              endpoint = (if in_sandbox cl then ''https://svcs.sandbox.paypal.com'' else ''https://svcs.paypal.com''),
              params = ps\<rparr>])"
proof (cases "''endpoint'' \<in> fst ` set ps")
  case True
  with assms show ?thesis by (auto simp: call_collision)
next
  case False
  with assms show ?thesis by (auto simp: call_dispatch)
qed

section \<open>Claims about ReceiverList\<close>

text \<open>
  Claim C5. A record whose email and amount are both absent or empty (falsy for Python:
  \<^verbatim>\<open>None\<close>, the empty string, zero) leaves the list as it was, with no error. A record
  with one of them present adds exactly one entry at the end, whose \<^verbatim>\<open>primary\<close> is the
  string \<^verbatim>\<open>false\<close> when the record has no such key and the record's own value otherwise.
  \<^verbatim>\<open>extend\<close> applies \<^verbatim>\<open>append\<close> to each element in turn, stopping at the first error; on
  records it returns the old entries followed by the canonical entries of the surviving
  records, in their order.
\<close>

theorem ReceiverList_append_extend:
  "(\<not> truthy (dict_get obj ''email'' PNone) \<and> \<not> truthy (dict_get obj ''amount'' PNone) \<longrightarrow>
      (\<exists>ret rl. ReceiverList_append self (PDict obj) = Inr (ret, rl) \<and>
                length rl = length self \<and> rl = self)) \<and>
   (truthy (dict_get obj ''email'' PNone) \<or> truthy (dict_get obj ''amount'' PNone) \<longrightarrow>
      (\<exists>ret entry. ReceiverList_append self (PDict obj) = Inr (ret, self @ [PDict entry]) \<and>
                   entry = sanitized obj \<and>
                   (map_of obj ''primary'' = None \<longrightarrow>
                      map_of entry ''primary'' = Some (PStr ''false'')) \<and>
                   (\<forall>p. map_of obj ''primary'' = Some p \<longrightarrow> map_of entry ''primary'' = Some p))) \<and>
   ReceiverList_extend self xs =
     foldl (\<lambda>acc x. case acc of Inl e \<Rightarrow> Inl e
                   | Inr s \<Rightarrow> map_sum id snd (ReceiverList_append s x)) (Inr self) xs \<and>
   ReceiverList_extend self (map PDict objs) =
     Inr (self @ map (\<lambda>obj. PDict (sanitized obj)) (filter survives objs))"
proof -
  have "ReceiverList_extend self (map PDict objs) =
     Inr (self @ map (\<lambda>obj. PDict (sanitized obj)) (filter survives objs))"
    using extend_dicts [of self objs] by (simp add: comp_def)
  moreover have "ReceiverList_extend self xs =
     foldl (\<lambda>acc x. case acc of Inl e \<Rightarrow> Inl e
                   | Inr s \<Rightarrow> map_sum id snd (ReceiverList_append s x)) (Inr self) xs"
    by (rule extend_foldl)
  moreover have "map_of obj ''primary'' = None \<longrightarrow>
      map_of (sanitized obj) ''primary'' = Some (PStr ''false'')"
    by (simp add: sanitized_def dict_get_def)
  moreover have "\<forall>p. map_of obj ''primary'' = Some p \<longrightarrow> map_of (sanitized obj) ''primary'' = Some p"
    by (simp add: sanitized_def dict_get_def)
  ultimately show ?thesis by (simp add: Let_def)
qed

theorem ReceiverList_append_extend_witness:
  "ReceiverList_append [] (PDict []) = Inr (PBool False, []) \<and>
   ReceiverList_append [] (PDict [(''amount'', PInt 5)]) =
     Inr (PNone, [PDict [(''email'', PNone), (''amount'', PInt 5), (''primary'', PStr ''false'')]]) \<and>
   ReceiverList_extend []
     [PDict [(''email'', PStr ''a@b.c'')], PDict [(''primary'', PStr ''true'')],
      PDict [(''amount'', PInt 5), (''primary'', PStr ''true'')]] =
     Inr [PDict [(''email'', PStr ''a@b.c''), (''amount'', PNone), (''primary'', PStr ''false'')],
          PDict [(''email'', PNone), (''amount'', PInt 5), (''primary'', PStr ''true'')]]"
  using ReceiverList_append_extend [of "[]" "[]" "[]" "[]"]
    ReceiverList_append_extend [of "[(''amount'', PInt 5)]" "[]" "[]" "[]"]
    ReceiverList_append_extend [of "[]" "[]" "[]"
      "[[(''email'', PStr ''a@b.c'')], [(''primary'', PStr ''true'')],
        [(''amount'', PInt 5), (''primary'', PStr ''true'')]]"]
  by (simp add: sanitized_def dict_get_def survives_def)

text \<open>
  Claim C4, as stated, fails: a record with an email and no amount is appended, although
  its amount is empty.
\<close>

theorem ReceiverList_append_email_only:
  "ReceiverList_append [] (PDict [(''email'', PStr ''a@b.c'')]) =
     Inr (PNone, [PDict [(''email'', PStr ''a@b.c''), (''amount'', PNone),
                         (''primary'', PStr ''false'')]]) \<and>
   \<not> truthy (dict_get [(''email'', PStr ''a@b.c'')] ''amount'' PNone)"
  by (simp add: sanitized_def dict_get_def)

text \<open>
  Claim C4, amended. \<^verbatim>\<open>append\<close> raises no error on a record, and the record's canonical
  entry is added exactly when at least one of its email and its amount is non-empty;
  the list is left as it was exactly when both are empty.
\<close>

theorem ReceiverList_append_present_iff:
  "\<exists>ret rl. ReceiverList_append self (PDict obj) = Inr (ret, rl) \<and>
      (rl = self @ [PDict (sanitized obj)] \<longleftrightarrow>
         truthy (dict_get obj ''email'' PNone) \<or> truthy (dict_get obj ''amount'' PNone)) \<and>
      (rl = self \<longleftrightarrow>
         \<not> truthy (dict_get obj ''email'' PNone) \<and> \<not> truthy (dict_get obj ''amount'' PNone))"
  by (simp add: Let_def)

theorem ReceiverList_append_present_iff_witness:
  "\<exists>ret rl. ReceiverList_append [PDict (sanitized email_only)] (PDict email_only) = Inr (ret, rl) \<and>
      rl = [PDict (sanitized email_only), PDict (sanitized email_only)] \<and>
      truthy (dict_get email_only ''email'' PNone)"
  using ReceiverList_append_present_iff [of "[PDict (sanitized email_only)]" email_only]
  by (simp add: email_only_def dict_get_def)

text \<open>
  Claim C10. The entry stored for a surviving record has exactly the keys \<^verbatim>\<open>email\<close>,
  \<^verbatim>\<open>amount\<close> and \<^verbatim>\<open>primary\<close>, whatever other keys the record has, with the record's
  values for them; a missing email or amount is stored as \<^verbatim>\<open>None\<close>, not left out.
\<close>

theorem sanitized_three_keys:
  assumes "ReceiverList_append self (PDict obj) = Inr (ret, rl)" and "rl \<noteq> self"
  shows "\<exists>entry. rl = self @ [PDict entry] \<and>
           map fst entry = [''email'', ''amount'', ''primary''] \<and>
           map_of entry ''email'' = Some (dict_get obj ''email'' PNone) \<and>
           map_of entry ''amount'' = Some (dict_get obj ''amount'' PNone) \<and>
           map_of entry ''primary'' = Some (dict_get obj ''primary'' (PStr ''false'')) \<and>
           (map_of obj ''email'' = None \<longrightarrow> map_of entry ''email'' = Some PNone) \<and>
           (map_of obj ''amount'' = None \<longrightarrow> map_of entry ''amount'' = Some PNone)"
  using assms by (auto simp: Let_def sanitized_def dict_get_def split: if_splits)

theorem sanitized_three_keys_witness:
  "ReceiverList_append [] (PDict email_only) =
     Inr (PNone, [PDict [(''email'', PStr ''a@b.c''), (''amount'', PNone),
                         (''primary'', PStr ''false'')]]) \<and>
   (\<exists>entry. [PDict [(''email'', PStr ''a@b.c''), (''amount'', PNone),
                    (''primary'', PStr ''false'')]] = [] @ [PDict entry] \<and>
            map fst entry = [''email'', ''amount'', ''primary''] \<and>
            map_of entry ''amount'' = Some PNone)"
proof -
  have a: "ReceiverList_append [] (PDict email_only) =
     Inr (PNone, [PDict [(''email'', PStr ''a@b.c''), (''amount'', PNone),
                         (''primary'', PStr ''false'')]])"
    by (simp add: email_only_def sanitized_def dict_get_def)
  have b: "[PDict [(''email'', PStr ''a@b.c''), (''amount'', PNone),
                   (''primary'', PStr ''false'')]] \<noteq> []"
    by simp
  from sanitized_three_keys [OF a b] a show ?thesis
    by (auto simp: email_only_def)
qed

section \<open>Claims about the dispatcher, pay and the URLs\<close>

text \<open>
  Claim C8. A call whose parameters have no key \<^verbatim>\<open>endpoint\<close> forwards exactly one request
  to the client: service \<^verbatim>\<open>AdaptivePayments\<close>, the method and the parameters as given,
  and the endpoint \<^verbatim>\<open>https://svcs.sandbox.paypal.com\<close> when the sandbox flag is set and
  \<^verbatim>\<open>https://svcs.paypal.com\<close> when it is not; the result is the client's answer. With a
  key \<^verbatim>\<open>endpoint\<close> among the parameters nothing is forwarded and an error is returned.
\<close>

theorem call_endpoint:
  assumes "call cl meth ps w = (res, w')"
  shows "(''endpoint'' \<notin> fst ` set ps \<longrightarrow>
            dispatched w' = dispatched w @
              [\<lparr>service = ''AdaptivePayments'', api_method = meth,
                endpoint = (if in_sandbox cl then ''https://svcs.sandbox.paypal.com''
                            else ''https://svcs.paypal.com''),
                params = ps\<rparr>] \<and>
            res = client_call cl (dispatched w)
              \<lparr>service = ''AdaptivePayments'', api_method = meth,
                endpoint = (if in_sandbox cl then ''https://svcs.sandbox.paypal.com''
                            else ''https://svcs.paypal.com''),
                params = ps\<rparr>) \<and>
         (''endpoint'' \<in> fst ` set ps \<longrightarrow> dispatched w' = dispatched w \<and> (\<exists>e. res = Inl e))"
proof (cases "''endpoint'' \<in> fst ` set ps")
  case True
  with assms show ?thesis by (auto simp: call_collision)
next
  case False
  with assms show ?thesis by (auto simp: call_dispatch)
qed

theorem call_endpoint_witness:
  "dispatched (snd (call sandbox_client ''Pay'' [(''payKey'', PStr ''AP-1'')] loaded)) =
     [\<lparr>service = ''AdaptivePayments'', api_method = ''Pay'',
       endpoint = ''https://svcs.sandbox.paypal.com'', params = [(''payKey'', PStr ''AP-1'')]\<rparr>] \<and>
   dispatched (snd (call (sandbox_client\<lparr>in_sandbox := False\<rparr>) ''Pay''
                      [(''payKey'', PStr ''AP-1'')] loaded)) =
     [\<lparr>service = ''AdaptivePayments'', api_method = ''Pay'',
       endpoint = ''https://svcs.paypal.com'', params = [(''payKey'', PStr ''AP-1'')]\<rparr>] \<and>
   dispatched (snd (call sandbox_client ''Pay'' [(''endpoint'', PStr ''x'')] loaded)) = []"
  using call_endpoint [of sandbox_client "''Pay''" "[(''payKey'', PStr ''AP-1'')]" loaded
      "fst (call sandbox_client ''Pay'' [(''payKey'', PStr ''AP-1'')] loaded)"
      "snd (call sandbox_client ''Pay'' [(''payKey'', PStr ''AP-1'')] loaded)"]
    call_endpoint [of "sandbox_client\<lparr>in_sandbox := False\<rparr>" "''Pay''"
      "[(''payKey'', PStr ''AP-1'')]" loaded
      "fst (call (sandbox_client\<lparr>in_sandbox := False\<rparr>) ''Pay'' [(''payKey'', PStr ''AP-1'')] loaded)"
      "snd (call (sandbox_client\<lparr>in_sandbox := False\<rparr>) ''Pay'' [(''payKey'', PStr ''AP-1'')] loaded)"]
    call_endpoint [of sandbox_client "''Pay''" "[(''endpoint'', PStr ''x'')]" loaded
      "fst (call sandbox_client ''Pay'' [(''endpoint'', PStr ''x'')] loaded)"
      "snd (call sandbox_client ''Pay'' [(''endpoint'', PStr ''x'')] loaded)"]
  by (simp add: sandbox_client_def loaded_def)

text \<open>
  Claim C7. \<^verbatim>\<open>generate_pay_url\<close> is a function of the client, the pay key and the flag
  alone (it neither reads nor changes the requests sent): without \<^verbatim>\<open>embedded\<close> it
  resolves \<^verbatim>\<open>/cgi-bin/webscr?cmd=_ap-payment&paykey=\<close> followed by the pay key against the
  client's URL, with \<^verbatim>\<open>embedded\<close> it resolves \<^verbatim>\<open>/webapps/adaptivepayment/flow/pay?paykey=\<close>
  followed by the pay key.
\<close>

theorem generate_pay_url_paths:
  "generate_pay_url cl pay_key False =
     get_paypal_url cl (''/cgi-bin/webscr?cmd=_ap-payment&paykey='' @ pay_key) \<and>
   generate_pay_url cl pay_key True =
     get_paypal_url cl (''/webapps/adaptivepayment/flow/pay?paykey='' @ pay_key)"
  by (simp add: generate_pay_url_def)

theorem generate_pay_url_paths_witness:
  "generate_pay_url sandbox_client ''ABC123'' False =
     ''https://www.sandbox.paypal.com/cgi-bin/webscr?cmd=_ap-payment&paykey=ABC123'' \<and>
   generate_pay_url sandbox_client ''ABC123'' True =
     ''https://www.sandbox.paypal.com/webapps/adaptivepayment/flow/pay?paykey=ABC123''"
  using generate_pay_url_paths [of sandbox_client "''ABC123''"]
  by (simp add: sandbox_client_def)

text \<open>
  Claim C2. \<^verbatim>\<open>pay\<close> checks in this order: the required fields, in the order
  \<^verbatim>\<open>cancel_url\<close>, \<^verbatim>\<open>return_url\<close>, \<^verbatim>\<open>currency_code\<close>, \<^verbatim>\<open>action_type\<close>, \<^verbatim>\<open>receivers\<close>,
  \<^verbatim>\<open>ipn_callback_url\<close>; the currency code; the action type; the fees payer, when one is
  given. The first check that fails decides the error, and the state (the requests sent,
  the dictionaries) is returned as it was: when a required field is empty the error is
  \<open>MissingRequiredField\<close> with the name of the first empty one.
\<close>

theorem pay_validation_order:
  "let required = [(''cancel_url'', pystr cancel_url), (''return_url'', pystr return_url),
                   (''currency_code'', pystr currency_code), (''action_type'', pystr action_type),
                   (''receivers'', receivers), (''ipn_callback_url'', pystr ipn_callback_url)];
       missing = map_option fst (find (\<lambda>(name, v). is_empty v) required);
       outcome = pay is_valid_code cl action_type currency_code cancel_url return_url
                     ipn_callback_url receivers fees_payer extra w
   in (list_ex (\<lambda>(name, v). is_empty v) required \<longrightarrow>
         (\<exists>name. missing = Some name \<and> outcome = (Inl (MissingRequiredField name), w))) \<and>
      (\<forall>name. missing = Some name \<longrightarrow> outcome = (Inl (MissingRequiredField name), w)) \<and>
      (missing = None \<and> \<not> is_valid_code currency_code \<longrightarrow>
         outcome = (Inl (ValueError_currency_code currency_code), w)) \<and>
      (missing = None \<and> is_valid_code currency_code \<and>
       \<not> str_in action_type [''PAY'', ''CREATE'', ''PAY_PRIMARY''] \<longrightarrow>
         outcome = (Inl (ValueError_payment_action action_type), w)) \<and>
      (missing = None \<and> is_valid_code currency_code \<and>
       str_in action_type [''PAY'', ''CREATE'', ''PAY_PRIMARY''] \<and>
       truthy (pystr fees_payer) \<and>
       \<not> str_in fees_payer [''SENDER'', ''PRIMARYRECEIVER'', ''EACHRECEIVER'', ''SECONDARYONLY''] \<longrightarrow>
         outcome = (Inl (ValueError_fees_payer fees_payer), w))"
  unfolding Let_def pay_def check_required_pay SUPPORTED_PAY_ACTIONS_def SUPPORTED_FEE_PAYERS_def
  by (auto split: option.splits prod.splits)

theorem pay_validation_order_witness:
  "pay usd_only sandbox_client (Some ''PAY'') (Some ''USD'') (Some ''http://shop/cancel'')
       (Some ''http://shop/return'') None one_receiver None None loaded =
     (Inl (MissingRequiredField ''ipn_callback_url''), loaded) \<and>
   pay usd_only sandbox_client (Some ''PAY'') (Some ''USD'') None None (Some ''http://shop/ipn'')
       PNone None None loaded =
     (Inl (MissingRequiredField ''cancel_url''), loaded) \<and>
   pay usd_only sandbox_client (Some ''BUY'') (Some ''XXX'') (Some ''http://shop/cancel'')
       (Some ''http://shop/return'') (Some ''http://shop/ipn'') one_receiver (Some ''ME'') None loaded =
     (Inl (ValueError_currency_code (Some ''XXX'')), loaded) \<and>
   pay usd_only sandbox_client (Some ''BUY'') (Some ''USD'') (Some ''http://shop/cancel'')
       (Some ''http://shop/return'') (Some ''http://shop/ipn'') one_receiver (Some ''ME'') None loaded =
     (Inl (ValueError_payment_action (Some ''BUY'')), loaded) \<and>
   pay usd_only sandbox_client (Some ''PAY'') (Some ''USD'') (Some ''http://shop/cancel'')
       (Some ''http://shop/return'') (Some ''http://shop/ipn'') one_receiver (Some ''ME'') None loaded =
     (Inl (ValueError_fees_payer (Some ''ME'')), loaded)"
  using
    pay_validation_order [of "Some ''http://shop/cancel''" "Some ''http://shop/return''"
      "Some ''USD''" "Some ''PAY''" one_receiver None usd_only sandbox_client None None loaded]
    pay_validation_order [of None None
      "Some ''USD''" "Some ''PAY''" PNone "Some ''http://shop/ipn''" usd_only sandbox_client None None loaded]
    pay_validation_order [of "Some ''http://shop/cancel''" "Some ''http://shop/return''"
      "Some ''XXX''" "Some ''BUY''" one_receiver "Some ''http://shop/ipn''" usd_only sandbox_client
      "Some ''ME''" None loaded]
    pay_validation_order [of "Some ''http://shop/cancel''" "Some ''http://shop/return''"
      "Some ''USD''" "Some ''BUY''" one_receiver "Some ''http://shop/ipn''" usd_only sandbox_client
      "Some ''ME''" None loaded]
    pay_validation_order [of "Some ''http://shop/cancel''" "Some ''http://shop/return''"
      "Some ''USD''" "Some ''PAY''" one_receiver "Some ''http://shop/ipn''" usd_only sandbox_client
      "Some ''ME''" None loaded]
  by (simp add: Let_def usd_only_def one_receiver_def)

text \<open>
  Claim C9. When \<^verbatim>\<open>pay\<close> returns a response it has sent exactly one request, of method
  \<^verbatim>\<open>Pay\<close>, whose parameters are the fields of \<^verbatim>\<open>extra\<close> as they were before the call,
  with \<^verbatim>\<open>actionType\<close>, \<^verbatim>\<open>receiverList\<close>, \<^verbatim>\<open>currencyCode\<close>, \<^verbatim>\<open>cancelUrl\<close> and \<^verbatim>\<open>returnUrl\<close>
  set from the arguments over any field of the same name, \<^verbatim>\<open>ipnNotificationUrl\<close> set to
  the (non-empty) callback URL, and \<^verbatim>\<open>feesPayer\<close> set only when the fees payer is
  non-empty.
\<close>

theorem pay_payload:
  assumes "pay is_valid_code cl action_type currency_code cancel_url return_url ipn_callback_url
             receivers fees_payer extra w = (Inr resp, w')"
  shows "\<exists>rl req.
           pay_receivers receivers = Inr rl \<and>
           dispatched w' = dispatched w @ [req] \<and>
           api_method req = ''Pay'' \<and>
           \<not> is_empty (pystr ipn_callback_url) \<and>
           (\<forall>k. map_of (params req) k =
              (if k = ''feesPayer'' \<and> \<not> is_empty (pystr fees_payer) then Some (pystr fees_payer)
               else if k = ''ipnNotificationUrl'' then Some (pystr ipn_callback_url)
               else if k = ''returnUrl'' then Some (pystr return_url)
               else if k = ''cancelUrl'' then Some (pystr cancel_url)
               else if k = ''currencyCode'' then Some (pystr currency_code)
               else if k = ''receiverList'' then Some (PDict [(''receiver'', PReceiverList rl)])
               else if k = ''actionType'' then Some (pystr action_type)
               else map_of (store w (case extra of None \<Rightarrow> PayDefault | Some a \<Rightarrow> a)) k))"
proof -
  from pay_Inr [OF assms] obtain rl where
    rl: "pay_receivers receivers = Inr rl" and ne: "\<not> is_empty (pystr ipn_callback_url)" and
    c: "(Inr resp, w') = call cl ''Pay''
             (set_nonempty_param (set_nonempty_param
                (dict_update (store w (case extra of None \<Rightarrow> PayDefault | Some a \<Rightarrow> a))
                   [(''actionType'', pystr action_type),
                    (''receiverList'', PDict [(''receiver'', PReceiverList rl)]),
                    (''currencyCode'', pystr currency_code), (''cancelUrl'', pystr cancel_url),
                    (''returnUrl'', pystr return_url)])
                ''ipnNotificationUrl'' (pystr ipn_callback_url)) ''feesPayer'' (pystr fees_payer))
             (w\<lparr>store := (store w)((case extra of None \<Rightarrow> PayDefault | Some a \<Rightarrow> a) :=
                set_nonempty_param (set_nonempty_param
                (dict_update (store w (case extra of None \<Rightarrow> PayDefault | Some a \<Rightarrow> a))
                   [(''actionType'', pystr action_type),
                    (''receiverList'', PDict [(''receiver'', PReceiverList rl)]),
                    (''currencyCode'', pystr currency_code), (''cancelUrl'', pystr cancel_url),
                    (''returnUrl'', pystr return_url)])
                ''ipnNotificationUrl'' (pystr ipn_callback_url)) ''feesPayer'' (pystr fees_payer))\<rparr>)"
    by blast
  from call_new [OF c [symmetric]] obtain req where
    d: "dispatched w' = dispatched w @ [req]" and m: "api_method req = ''Pay''" and
    p: "params req = set_nonempty_param (set_nonempty_param
                (dict_update (store w (case extra of None \<Rightarrow> PayDefault | Some a \<Rightarrow> a))
                   [(''actionType'', pystr action_type),
                    (''receiverList'', PDict [(''receiver'', PReceiverList rl)]),
                    (''currencyCode'', pystr currency_code), (''cancelUrl'', pystr cancel_url),
                    (''returnUrl'', pystr return_url)])
                ''ipnNotificationUrl'' (pystr ipn_callback_url)) ''feesPayer'' (pystr fees_payer)"
    by auto
  have "\<forall>k. map_of (params req) k =
              (if k = ''feesPayer'' \<and> \<not> is_empty (pystr fees_payer) then Some (pystr fees_payer)
               else if k = ''ipnNotificationUrl'' then Some (pystr ipn_callback_url)
               else if k = ''returnUrl'' then Some (pystr return_url)
               else if k = ''cancelUrl'' then Some (pystr cancel_url)
               else if k = ''currencyCode'' then Some (pystr currency_code)
               else if k = ''receiverList'' then Some (PDict [(''receiver'', PReceiverList rl)])
               else if k = ''actionType'' then Some (pystr action_type)
               else map_of (store w (case extra of None \<Rightarrow> PayDefault | Some a \<Rightarrow> a)) k)"
    unfolding p payload_lookup using ne by simp
  with rl d m ne show ?thesis by blast
qed

theorem pay_payload_witness:
  "\<exists>resp w' req.
     pay usd_only sandbox_client (Some ''PAY'') (Some ''USD'') (Some ''http://shop/cancel'')
       (Some ''http://shop/return'') (Some ''http://shop/ipn'') one_receiver None (Some (Caller 0))
       (loaded\<lparr>store := (store loaded)
          (Caller 0 := [(''memo'', PStr ''hi''), (''actionType'', PStr ''X'')])\<rparr>) = (Inr resp, w') \<and>
     dispatched w' = [req] \<and>
     map_of (params req) ''memo'' = Some (PStr ''hi'') \<and>
     map_of (params req) ''actionType'' = Some (PStr ''PAY'') \<and>
     map_of (params req) ''ipnNotificationUrl'' = Some (PStr ''http://shop/ipn'') \<and>
     map_of (params req) ''feesPayer'' = None"
proof -
  let ?w = "loaded\<lparr>store := (store loaded)
          (Caller 0 := [(''memo'', PStr ''hi''), (''actionType'', PStr ''X'')])\<rparr>"
  let ?out = "pay usd_only sandbox_client (Some ''PAY'') (Some ''USD'') (Some ''http://shop/cancel'')
       (Some ''http://shop/return'') (Some ''http://shop/ipn'') one_receiver None (Some (Caller 0)) ?w"
  have e: "?out = (Inr \<lparr>success = True, resp_fields = [(''payKey'', ''AP-1'')]\<rparr>, snd ?out)"
    by (simp add: pay_def call_def Let_def usd_only_def sandbox_client_def loaded_def
        one_receiver_def SUPPORTED_PAY_ACTIONS_def ReceiverList_init_def set_nonempty_param_def
        dict_get_def)
  from pay_payload [OF e] obtain rl req where
    d: "dispatched (snd ?out) = dispatched ?w @ [req]" and
    k: "\<forall>k. map_of (params req) k =
              (if k = ''feesPayer'' \<and> \<not> is_empty (pystr None) then Some (pystr None)
               else if k = ''ipnNotificationUrl'' then Some (pystr (Some ''http://shop/ipn''))
               else if k = ''returnUrl'' then Some (pystr (Some ''http://shop/return''))
               else if k = ''cancelUrl'' then Some (pystr (Some ''http://shop/cancel''))
               else if k = ''currencyCode'' then Some (pystr (Some ''USD''))
               else if k = ''receiverList'' then Some (PDict [(''receiver'', PReceiverList rl)])
               else if k = ''actionType'' then Some (pystr (Some ''PAY''))
               else map_of (store ?w (case Some (Caller 0) of None \<Rightarrow> PayDefault | Some a \<Rightarrow> a)) k)"
    by blast
  from d have d': "dispatched (snd ?out) = [req]" by (simp add: loaded_def)
  from k have "map_of (params req) ''memo'' = Some (PStr ''hi'')"
    "map_of (params req) ''actionType'' = Some (PStr ''PAY'')"
    "map_of (params req) ''ipnNotificationUrl'' = Some (PStr ''http://shop/ipn'')"
    "map_of (params req) ''feesPayer'' = None"
    by (simp_all add: loaded_def)
  with e d' show ?thesis by blast
qed

text \<open>
  Claim C6 fails on the code. The constructor, \<^verbatim>\<open>append\<close> and \<^verbatim>\<open>extend\<close> sanitize what
  they store, but \<^verbatim>\<open>insert\<close> is the one of \<^verbatim>\<open>list\<close>, and \<^verbatim>\<open>pay\<close> sends a ReceiverList as
  it gets it: after \<^verbatim>\<open>rl = ReceiverList([{'email': 'a@b.c', 'amount': '10.00'}])\<close> and
  \<^verbatim>\<open>rl.insert(0, {})\<close> the list holds a record with neither email nor amount, and
  \<^verbatim>\<open>pay\<close> sends that record under \<^verbatim>\<open>receiverList.receiver\<close>.
\<close>

theorem inserted_record_on_the_wire:
  "ReceiverList_init [one_receiver] =
     Inr [PDict [(''email'', PStr ''a@b.c''), (''amount'', PStr ''10.00''),
                 (''primary'', PStr ''false'')]] \<and>
   ReceiverList_insert
     [PDict [(''email'', PStr ''a@b.c''), (''amount'', PStr ''10.00''),
             (''primary'', PStr ''false'')]] 0 (PDict []) =
     [PDict [],
      PDict [(''email'', PStr ''a@b.c''), (''amount'', PStr ''10.00''),
             (''primary'', PStr ''false'')]] \<and>
   \<not> populated (PDict []) \<and>
   (let w = snd (pay usd_only sandbox_client (Some ''PAY'') (Some ''USD'')
                   (Some ''http://shop/cancel'') (Some ''http://shop/return'')
                   (Some ''http://shop/ipn'')
                   (PReceiverList
                      [PDict [],
                       PDict [(''email'', PStr ''a@b.c''), (''amount'', PStr ''10.00''),
                              (''primary'', PStr ''false'')]])
                   None None loaded)
    in length (dispatched w) = 1 \<and>
       map_of (params (dispatched w ! 0)) ''receiverList'' =
         Some (PDict [(''receiver'',
                       PReceiverList
                         [PDict [],
                          PDict [(''email'', PStr ''a@b.c''), (''amount'', PStr ''10.00''),
                                 (''primary'', PStr ''false'')]])]))"
  by (simp add: pay_def call_def Let_def usd_only_def sandbox_client_def loaded_def
      one_receiver_def SUPPORTED_PAY_ACTIONS_def ReceiverList_init_def ReceiverList_insert_def
      set_nonempty_param_def sanitized_def dict_get_def survives_def)

text \<open>
  Claim C1 fails on the code. \<^verbatim>\<open>get_payment_url\<close> passes \<^verbatim>\<open>locals()\<close> to \<^verbatim>\<open>pay\<close>, and
  \<^verbatim>\<open>locals()\<close> holds \<^verbatim>\<open>embedded\<close>, which is no parameter of \<^verbatim>\<open>pay\<close>: every call raises
  \<^verbatim>\<open>TypeError\<close> before \<^verbatim>\<open>pay\<close> runs, whatever the arguments, and nothing is sent.
\<close>

theorem get_payment_url_raises:
  "get_payment_url is_valid_code cl action_type currency_code cancel_url return_url
     ipn_callback_url receivers fees_payer extra embedded w =
   (Inl (TypeError ''pay() got an unexpected keyword argument embedded''), w)"
  by (simp add: get_payment_url_def bind_keywords_def pay_parameters_def
      get_payment_url_locals_def)

text \<open>
  Claim C3 fails on the code. After a first \<^verbatim>\<open>pay\<close> with fees payer \<^verbatim>\<open>SENDER\<close> and no
  \<^verbatim>\<open>extra\<close>, a second \<^verbatim>\<open>pay\<close> with no fees payer and no \<^verbatim>\<open>extra\<close> sends \<^verbatim>\<open>feesPayer\<close> =
  \<^verbatim>\<open>SENDER\<close>; and after a first \<^verbatim>\<open>set_payment_options\<close> with display options, a second
  one without any sends the display options of the first.
\<close>

theorem default_extra_shared:
  "(let w1 = snd (pay usd_only sandbox_client (Some ''PAY'') (Some ''USD'')
                    (Some ''http://shop/cancel'') (Some ''http://shop/return'')
                    (Some ''http://shop/ipn'') one_receiver (Some ''SENDER'') None loaded);
        w2 = snd (pay usd_only sandbox_client (Some ''PAY'') (Some ''USD'')
                    (Some ''http://shop/cancel'') (Some ''http://shop/return'')
                    (Some ''http://shop/ipn'') one_receiver None None w1)
    in length (dispatched w2) = 2 \<and>
       map_of (params (dispatched w2 ! 1)) ''feesPayer'' = Some (PStr ''SENDER'')) \<and>
   (let w1 = snd (set_payment_options sandbox_client (PStr ''AP-1'') PNone
                    (PDict [(''businessName'', PStr ''Shop'')]) PNone PNone PNone None loaded);
        w2 = snd (set_payment_options sandbox_client (PStr ''AP-2'') PNone
                    PNone PNone PNone PNone None w1)
    in length (dispatched w2) = 2 \<and>
       map_of (params (dispatched w2 ! 1)) ''displayOptions'' =
         Some (PDict [(''businessName'', PStr ''Shop'')]))"
  by (simp add: pay_def set_payment_options_def call_def Let_def usd_only_def sandbox_client_def
      loaded_def one_receiver_def SUPPORTED_PAY_ACTIONS_def SUPPORTED_FEE_PAYERS_def
      ReceiverList_init_def set_nonempty_param_def dict_get_def)

end
